theory Spec2Isabelle
  imports Complex_Main
begin

section \<open>JavaScript values, objects and the heap\<close>

text \<open>
  The cookie helper of \<^verbatim>\<open>src/utils/cookies.js\<close> works on objects that it shares with its
  caller (the request, the response, the overrides), so objects live in a heap and values
  refer to them by address. The heap holds, for each object, the finite map of its own
  properties; property order is not observable by any operation modelled here. What a
  value inherits through its prototype chain is given separately (see \<open>inherited\<close> below):
  a spread copies own properties only, a member read also consults the chain.
\<close>

datatype jsnumber = Finite rat | PosInfinity | NegInfinity | NaN

type_synonym addr = nat

datatype jsval =
    JUndefined
  | JNull
  | JBool bool
  | JNum jsnumber
  | JStr string
  | JRef addr

type_synonym props = "string \<rightharpoonup> jsval"

type_synonym heap = "props list"

datatype error =
    TypeError
  | SyntaxError
  | AssertionError
  | TransportError string

text \<open>An object expression \<^verbatim>\<open>{...}\<close> allocates at the first unused address.\<close>

definition alloc :: "heap \<Rightarrow> props \<Rightarrow> addr \<times> heap" where
  "alloc h ps = (length h, h @ [ps])"

text \<open>The object stored at an address; an address beyond the heap names no object.\<close>

definition object_at :: "heap \<Rightarrow> addr \<Rightarrow> props" where
  "object_at h a = (if a < length h then h ! a else Map.empty)"

text \<open>
  Array-index keys of a string value: the canonical decimal numerals \<^verbatim>\<open>"0"\<close>, \<^verbatim>\<open>"1"\<close>, ...
  below its length.
\<close>

definition is_digit :: "char \<Rightarrow> bool" where
  "is_digit c = (c \<in> set ''0123456789'')"

definition digit_value :: "char \<Rightarrow> nat" where
  "digit_value c = of_char c - of_char CHR ''0''"

definition index_of_key :: "string \<Rightarrow> nat option" where
  "index_of_key k =
     (if k \<noteq> [] \<and> list_all is_digit k \<and> (k = ''0'' \<or> hd k \<noteq> CHR ''0'')
      then Some (foldl (\<lambda>n c. 10 * n + digit_value c) 0 k)
      else None)"

definition string_chars :: "string \<Rightarrow> props" where
  "string_chars s k =
     (case index_of_key k of
        Some i \<Rightarrow> if i < length s then Some (JStr [s ! i]) else None
      | None \<Rightarrow> None)"

text \<open>
  The prototype chain. For a value \<open>v\<close>, \<open>inh v\<close> maps each property name found on the
  chain of \<open>v\<close> (for a plain object \<^verbatim>\<open>Object.prototype\<close>, with \<^verbatim>\<open>toString\<close>, \<^verbatim>\<open>constructor\<close>,
  \<^verbatim>\<open>__proto__\<close>, ...; for a string \<^verbatim>\<open>String.prototype\<close> and then \<^verbatim>\<open>Object.prototype\<close>; nothing
  for an object without prototype) to the value that reading it yields. The chain belongs
  to the runtime and to the caller's objects, so it is a parameter.
\<close>

type_synonym inherited = "jsval \<Rightarrow> props"

definition from_chain :: "inherited \<Rightarrow> jsval \<Rightarrow> string \<Rightarrow> error + jsval" where
  "from_chain inh v k = (case inh v k of Some x \<Rightarrow> Inr x | None \<Rightarrow> Inr JUndefined)"

text \<open>
  Member access \<^verbatim>\<open>v[k]\<close>. Reading a property of \<^verbatim>\<open>undefined\<close> or \<^verbatim>\<open>null\<close> throws a
  TypeError. Otherwise an own property wins, then the prototype chain is searched, and a
  property found nowhere reads as \<^verbatim>\<open>undefined\<close>.
\<close>

fun get_member :: "inherited \<Rightarrow> heap \<Rightarrow> jsval \<Rightarrow> string \<Rightarrow> error + jsval" where
  "get_member inh h JUndefined k = Inl TypeError"
| "get_member inh h JNull k = Inl TypeError"
| "get_member inh h (JRef a) k =
     (case object_at h a k of Some v \<Rightarrow> Inr v | None \<Rightarrow> from_chain inh (JRef a) k)"
| "get_member inh h (JStr s) k =
     (if k = ''length'' then Inr (JNum (Finite (of_nat (length s))))
      else case string_chars s k of Some v \<Rightarrow> Inr v | None \<Rightarrow> from_chain inh (JStr s) k)"
| "get_member inh h (JBool b) k = from_chain inh (JBool b) k"
| "get_member inh h (JNum n) k = from_chain inh (JNum n) k"

text \<open>
  The own enumerable properties that a spread element \<^verbatim>\<open>...v\<close> copies: those of an
  object, the characters of a string, and nothing for any other value.
\<close>

fun spread_source :: "heap \<Rightarrow> jsval \<Rightarrow> props" where
  "spread_source h (JRef a) = object_at h a"
| "spread_source h (JStr s) = string_chars s"
| "spread_source h v = Map.empty"

text \<open>\<^verbatim>\<open>{ ...a, ...b }\<close>: the properties of \<^verbatim>\<open>a\<close>, then those of \<^verbatim>\<open>b\<close> written over them.\<close>

definition spread2 :: "heap \<Rightarrow> jsval \<Rightarrow> jsval \<Rightarrow> props" where
  "spread2 h a b = spread_source h a ++ spread_source h b"

section \<open>The cookie helper\<close>

text \<open>\<^verbatim>\<open>process.env\<close>: variable names to strings; an unset variable reads as \<^verbatim>\<open>undefined\<close>.\<close>

type_synonym env = "string \<rightharpoonup> string"

text \<open>
  \<^verbatim>\<open>getOptions: () => ({ httpOnly: true, secure: process.env.NODE_ENV === 'production',
  sameSite: 'strict', maxAge: 15 * 60 * 1000 })\<close>
\<close>

definition getOptions :: "env \<Rightarrow> heap \<Rightarrow> addr \<times> heap" where
  "getOptions e h =
     alloc h
       [''httpOnly'' \<mapsto> JBool True,
        ''secure'' \<mapsto> JBool (e ''NODE_ENV'' = Some ''production''),
        ''sameSite'' \<mapsto> JStr ''strict'',
        ''maxAge'' \<mapsto> JNum (Finite (15 * 60 * 1000))]"

text \<open>
  The response target is known to the helper only through its two operations. Each
  receives its arguments, may change the heap and the response's own state, and either
  returns a value or throws.
\<close>

type_synonym 'r outcome = "(error + jsval) \<times> heap \<times> 'r"

record 'r response_target =
  cookie :: "jsval \<Rightarrow> jsval \<Rightarrow> jsval \<Rightarrow> heap \<times> 'r \<Rightarrow> 'r outcome"
  clearCookie :: "jsval \<Rightarrow> jsval \<Rightarrow> heap \<times> 'r \<Rightarrow> 'r outcome"

text \<open>The default parameter \<^verbatim>\<open>options = {}\<close>: a fresh empty object when the argument is \<^verbatim>\<open>undefined\<close>.\<close>

definition default_options :: "jsval \<Rightarrow> heap \<Rightarrow> jsval \<times> heap" where
  "default_options options h =
     (if options = JUndefined
      then (case alloc h Map.empty of (a, h') \<Rightarrow> (JRef a, h'))
      else (options, h))"

text \<open>
  The argument expression \<^verbatim>\<open>{ ...cookies.getOptions(), ...options }\<close> that both \<^verbatim>\<open>set\<close>
  and \<^verbatim>\<open>clear\<close> evaluate: the defaults are allocated, then the merged object.
\<close>

definition merged_options :: "env \<Rightarrow> jsval \<Rightarrow> heap \<Rightarrow> addr \<times> heap" where
  "merged_options e options h =
     (case getOptions e h of (d, h1) \<Rightarrow> alloc h1 (spread2 h1 (JRef d) options))"

text \<open>
  A call used as a statement: its value is dropped, its exception passes through, and its
  effects stay.
\<close>

definition drop_result :: "'r outcome \<Rightarrow> 'r outcome" where
  "drop_result out =
     (case fst out of Inl err \<Rightarrow> (Inl err, snd out) | Inr v \<Rightarrow> (Inr JUndefined, snd out))"

text \<open>
  \<^verbatim>\<open>set: (res, name, value, options = {}) => { res.cookie(name, value, {...}); }\<close>
  The block body returns nothing.
\<close>

definition cookies_set ::
  "'r response_target \<Rightarrow> env \<Rightarrow> jsval \<Rightarrow> jsval \<Rightarrow> jsval \<Rightarrow> heap \<times> 'r \<Rightarrow> 'r outcome" where
  "cookies_set res e name val options s =
     (let (options', h0) = default_options options (fst s);
          (m, h2) = merged_options e options' h0
      in drop_result (cookie res name val (JRef m) (h2, snd s)))"

text \<open>\<^verbatim>\<open>clear: (res, name, options = {}) => { return res.clearCookie(name, {...}); }\<close>\<close>

definition cookies_clear ::
  "'r response_target \<Rightarrow> env \<Rightarrow> jsval \<Rightarrow> jsval \<Rightarrow> heap \<times> 'r \<Rightarrow> 'r outcome" where
  "cookies_clear res e name options s =
     (let (options', h0) = default_options options (fst s);
          (m, h2) = merged_options e options' h0
      in clearCookie res name (JRef m) (h2, snd s))"

text \<open>\<^verbatim>\<open>get: (req, name) => { return req.cookie[name]; }\<close>\<close>

definition cookies_get :: "inherited \<Rightarrow> heap \<Rightarrow> jsval \<Rightarrow> string \<Rightarrow> error + jsval" where
  "cookies_get inh h req name =
     (case get_member inh h req ''cookie'' of
        Inl err \<Rightarrow> Inl err
      | Inr c \<Rightarrow> get_member inh h c name)"

text \<open>
  What an operation of the response target may write: the object it was handed and objects
  it allocates itself. The response's own state is not part of the heap.
\<close>

definition writes_only :: "addr \<Rightarrow> heap \<Rightarrow> heap \<Rightarrow> bool" where
  "writes_only m h h' = (length h \<le> length h' \<and> (\<forall>b<length h. b \<noteq> m \<longrightarrow> h' ! b = h ! b))"

definition frame_respecting :: "'r response_target \<Rightarrow> bool" where
  "frame_respecting res =
     ((\<forall>n v m h r. writes_only m h (fst (snd (cookie res n v (JRef m) (h, r)))))
    \<and> (\<forall>n m h r. writes_only m h (fst (snd (clearCookie res n (JRef m) (h, r))))))"

text \<open>A response target that only records the directives it is given, with the attributes read at the call.\<close>

datatype directive = SetCookie jsval jsval props | ClearCookie jsval props

definition recorder :: "directive list response_target" where
  "recorder =
     \<lparr> cookie = (\<lambda>n v opts s.
          (Inr JUndefined, fst s, snd s @ [SetCookie n v (spread_source (fst s) opts)])),
       clearCookie = (\<lambda>n opts s.
          (Inr JUndefined, fst s, snd s @ [ClearCookie n (spread_source (fst s) opts)])) \<rparr>"

section \<open>The smoke-test harness\<close>

text \<open>
  \<^verbatim>\<open>src/app.test.js\<close>. The application, the HTTP transport, \<^verbatim>\<open>JSON.parse\<close> and the test
  runner are outside the file: the transport is the list of events it delivers to the
  handlers that \<^verbatim>\<open>makeRequest\<close> registers, and \<^verbatim>\<open>JSON.parse\<close> is a parameter.
\<close>

subsection \<open>The request primitive\<close>

text \<open>\<^verbatim>\<open>const port = 3001; // Use different port for testing\<close>\<close>

definition port :: nat where
  "port = 3001"

record request_options =
  hostname :: string
  port_number :: nat
  path :: string
  http_method :: string
  request_headers :: "(string \<times> string) list"

record response =
  statusCode :: int
  headers :: "(string \<times> string) list"
  data :: string

datatype promise = Pending | Resolved response | Rejected error

text \<open>
  What the transport can deliver: the response head (the callback of \<^verbatim>\<open>http.request\<close>),
  \<^verbatim>\<open>'data'\<close> with a chunk (as the text that \<^verbatim>\<open>data += chunk\<close> appends), \<^verbatim>\<open>'end'\<close>,
  \<^verbatim>\<open>'error'\<close> on the request, and the loss of the connection after the response head, which
  is reported on the response object and not on the request.
\<close>

datatype event =
    OnResponse int "(string \<times> string) list"
  | OnData string
  | OnEnd
  | OnError error
  | OnAborted error

text \<open>
  The state of one \<^verbatim>\<open>makeRequest\<close> call: the requests issued, the head of the response
  once the callback has run, the callback's variable \<^verbatim>\<open>data\<close>, and the promise.
\<close>

record request_state =
  issued :: "request_options list"
  incoming :: "(int \<times> (string \<times> string) list) option"
  collected :: string
  settled :: promise

text \<open>A promise settles once: \<^verbatim>\<open>resolve\<close> and \<^verbatim>\<open>reject\<close> do nothing afterwards.\<close>

definition resolve :: "response \<Rightarrow> request_state \<Rightarrow> request_state" where
  "resolve r st = (if settled st = Pending then st\<lparr>settled := Resolved r\<rparr> else st)"

definition reject :: "error \<Rightarrow> request_state \<Rightarrow> request_state" where
  "reject err st = (if settled st = Pending then st\<lparr>settled := Rejected err\<rparr> else st)"

text \<open>
  \<^verbatim>\<open>http.request\<close> refuses a path that has a character outside \<^verbatim>\<open>\u0021-\u00ff\<close> (a space, a
  control character) by throwing a TypeError. Characters here are the code units up to
  \<^verbatim>\<open>0xFF\<close>.
\<close>

definition path_accepted :: "string \<Rightarrow> bool" where
  "path_accepted p = list_all (\<lambda>c. 33 \<le> (of_char c :: nat)) p"

text \<open>
  \<^verbatim>\<open>makeRequest(path)\<close> up to \<^verbatim>\<open>req.end()\<close>: the options are built, one request is issued,
  the handlers are registered. When \<^verbatim>\<open>http.request\<close> throws, inside the executor of the
  promise, nothing is issued and the promise is rejected with the exception.
\<close>

definition makeRequest :: "string \<Rightarrow> request_state" where
  "makeRequest p =
     (if path_accepted p
      then \<lparr> issued =
               [\<lparr> hostname = ''localhost'', port_number = port, path = p, http_method = ''GET'',
                  request_headers = [(''Content-Type'', ''application/json'')] \<rparr>],
             incoming = None,
             collected = [],
             settled = Pending \<rparr>
      else \<lparr> issued = [], incoming = None, collected = [], settled = Rejected TypeError \<rparr>)"

text \<open>
  The handlers. The response callback starts with \<^verbatim>\<open>let data = ''\<close> and registers the
  \<^verbatim>\<open>'data'\<close> and \<^verbatim>\<open>'end'\<close> listeners, so before it has run these two events reach no
  listener. The only other listener is \<^verbatim>\<open>req.on('error', ...)\<close>: nothing listens on the
  response for the loss of the connection, so neither \<^verbatim>\<open>resolve\<close> nor \<^verbatim>\<open>reject\<close> is
  called then.
\<close>

fun deliver :: "event \<Rightarrow> request_state \<Rightarrow> request_state" where
  "deliver (OnResponse sc hs) st = st\<lparr>incoming := Some (sc, hs), collected := []\<rparr>"
| "deliver (OnData chunk) st =
     (case incoming st of
        None \<Rightarrow> st
      | Some res \<Rightarrow> st\<lparr>collected := collected st @ chunk\<rparr>)"
| "deliver OnEnd st =
     (case incoming st of
        None \<Rightarrow> st
      | Some res \<Rightarrow>
          resolve \<lparr>statusCode = fst res, headers = snd res, data = collected st\<rparr> st)"
| "deliver (OnError err) st = reject err st"
| "deliver (OnAborted err) st = st"

definition run :: "event list \<Rightarrow> request_state \<Rightarrow> request_state" where
  "run evs st = fold deliver evs st"

text \<open>\<^verbatim>\<open>await\<close>: the value or the exception of a settled promise; a pending one never returns.\<close>

fun await :: "promise \<Rightarrow> (error + response) option" where
  "await Pending = None"
| "await (Resolved r) = Some (Inr r)"
| "await (Rejected err) = Some (Inl err)"

subsection \<open>Parsed bodies and assertions\<close>

text \<open>
  The value of \<^verbatim>\<open>JSON.parse\<close>: a tree that the tests only read. An object lists its
  properties, each key once.
\<close>

datatype json =
    JsNull
  | JsBool bool
  | JsNum jsnumber
  | JsStr string
  | JsArr "json list"
  | JsObj "(string \<times> json) list"

text \<open>Member access \<^verbatim>\<open>d.k\<close> on a parsed value; \<^verbatim>\<open>None\<close> is \<^verbatim>\<open>undefined\<close>.\<close>

fun json_member :: "json \<Rightarrow> string \<Rightarrow> error + json option" where
  "json_member JsNull k = Inl TypeError"
| "json_member (JsObj ps) k = Inr (map_of ps k)"
| "json_member (JsArr xs) k =
     (if k = ''length'' then Inr (Some (JsNum (Finite (of_nat (length xs)))))
      else case index_of_key k of
             Some i \<Rightarrow> Inr (if i < length xs then Some (xs ! i) else None)
           | None \<Rightarrow> Inr None)"
| "json_member (JsStr s) k =
     (if k = ''length'' then Inr (Some (JsNum (Finite (of_nat (length s)))))
      else case index_of_key k of
             Some i \<Rightarrow> Inr (if i < length s then Some (JsStr [s ! i]) else None)
           | None \<Rightarrow> Inr None)"
| "json_member (JsBool b) k = Inr None"
| "json_member (JsNum n) k = Inr None"

fun truthy :: "json option \<Rightarrow> bool" where
  "truthy None = False"
| "truthy (Some JsNull) = False"
| "truthy (Some (JsBool b)) = b"
| "truthy (Some (JsNum n)) = (n \<noteq> Finite 0 \<and> n \<noteq> NaN)"
| "truthy (Some (JsStr s)) = (s \<noteq> [])"
| "truthy (Some (JsArr xs)) = True"
| "truthy (Some (JsObj ps)) = True"

fun typeof :: "json option \<Rightarrow> string" where
  "typeof None = ''undefined''"
| "typeof (Some JsNull) = ''object''"
| "typeof (Some (JsBool b)) = ''boolean''"
| "typeof (Some (JsNum n)) = ''number''"
| "typeof (Some (JsStr s)) = ''string''"
| "typeof (Some (JsArr xs)) = ''object''"
| "typeof (Some (JsObj ps)) = ''object''"

definition JSON_parse :: "(string \<Rightarrow> json option) \<Rightarrow> string \<Rightarrow> error + json" where
  "JSON_parse parse s = (case parse s of None \<Rightarrow> Inl SyntaxError | Some d \<Rightarrow> Inr d)"

text \<open>\<^verbatim>\<open>assert(value)\<close> and \<^verbatim>\<open>assert.strictEqual(actual, expected)\<close>, the latter used against a number or a string literal only.\<close>

definition assert_ok :: "bool \<Rightarrow> error + unit" where
  "assert_ok b = (if b then Inr () else Inl AssertionError)"

definition assert_strictEqual :: "'a \<Rightarrow> 'a \<Rightarrow> error + unit" where
  "assert_strictEqual actual expected = (if actual = expected then Inr () else Inl AssertionError)"

text \<open>Sequencing of statements: the first exception ends the body.\<close>

definition then_do :: "error + 'a \<Rightarrow> ('a \<Rightarrow> error + 'b) \<Rightarrow> error + 'b" where
  "then_do x f = (case x of Inl err \<Rightarrow> Inl err | Inr v \<Rightarrow> f v)"

subsection \<open>The three tests\<close>

text \<open>The statements of each test after \<^verbatim>\<open>const response = await makeRequest(...)\<close>.\<close>

definition health_checks :: "(string \<Rightarrow> json option) \<Rightarrow> response \<Rightarrow> error + unit" where
  "health_checks parse response =
     then_do (assert_strictEqual (statusCode response) 200) (\<lambda>_.
     then_do (JSON_parse parse (data response)) (\<lambda>d.
     then_do (json_member d ''status'') (\<lambda>s.
     then_do (assert_strictEqual s (Some (JsStr ''OK''))) (\<lambda>_.
     then_do (json_member d ''timestamp'') (\<lambda>t.
     then_do (assert_ok (truthy t)) (\<lambda>_.
     then_do (json_member d ''uptime'') (\<lambda>u.
     assert_ok (typeof u = ''number''))))))))"

definition root_checks :: "response \<Rightarrow> error + unit" where
  "root_checks response =
     then_do (assert_strictEqual (statusCode response) 200) (\<lambda>_.
     assert_strictEqual (data response) ''Hello from acquisitions api'')"

definition api_checks :: "(string \<Rightarrow> json option) \<Rightarrow> response \<Rightarrow> error + unit" where
  "api_checks parse response =
     then_do (assert_strictEqual (statusCode response) 200) (\<lambda>_.
     then_do (JSON_parse parse (data response)) (\<lambda>d.
     then_do (json_member d ''message'') (\<lambda>m.
     assert_strictEqual m (Some (JsStr ''Aquisitions API is running!'')))))"

text \<open>
  A whole test: the request to its path, the wait for the promise, the checks. The result
  is \<^verbatim>\<open>None\<close> when the promise stays pending, \<^verbatim>\<open>Inr ()\<close> when the test passes and
  \<^verbatim>\<open>Inl\<close> the exception when it fails.
\<close>

definition run_test ::
  "string \<Rightarrow> (response \<Rightarrow> error + unit) \<Rightarrow> event list \<Rightarrow> (error + unit) option" where
  "run_test p checks evs =
     (case await (settled (run evs (makeRequest p))) of
        None \<Rightarrow> None
      | Some awaited \<Rightarrow> Some (then_do awaited checks))"

definition health_test :: "(string \<Rightarrow> json option) \<Rightarrow> event list \<Rightarrow> (error + unit) option" where
  "health_test parse evs = run_test ''/health'' (health_checks parse) evs"

definition root_test :: "event list \<Rightarrow> (error + unit) option" where
  "root_test evs = run_test ''/'' root_checks evs"

definition api_test :: "(string \<Rightarrow> json option) \<Rightarrow> event list \<Rightarrow> (error + unit) option" where
  "api_test parse evs = run_test ''/api'' (api_checks parse) evs"

subsection \<open>Setup, tests, teardown\<close>

datatype lifecycle = NotStarted | Listening nat | Closed

text \<open>
  The group's variable \<^verbatim>\<open>let server\<close> (\<^verbatim>\<open>None\<close> while it is \<^verbatim>\<open>undefined\<close>, else the
  state of the server object), the number of \<^verbatim>\<open>server.close\<close> calls, and the results
  reported so far.
\<close>

record harness =
  server :: "lifecycle option"
  closes :: nat
  reported :: "(error + unit) list"

definition initial :: harness where
  "initial = \<lparr> server = None, closes = 0, reported = [] \<rparr>"

text \<open>
  \<^verbatim>\<open>before\<close>: \<^verbatim>\<open>server = http.createServer(app)\<close>, then the wait for \<^verbatim>\<open>server.listen(port, resolve)\<close>.
  When the port cannot be bound the callback is never called and the hook does not
  complete.
\<close>

definition before_hook :: "bool \<Rightarrow> harness \<Rightarrow> harness option" where
  "before_hook port_free st =
     (let st' = st\<lparr>server := Some NotStarted\<rparr>
      in if port_free then Some (st'\<lparr>server := Some (Listening port)\<rparr>) else None)"

text \<open>
  \<^verbatim>\<open>after\<close>: \<^verbatim>\<open>if (server) { await new Promise(resolve => { server.close(resolve); }); }\<close>
  The callback runs whether or not the server was listening; only a listening server
  changes state.
\<close>

definition after_hook :: "harness \<Rightarrow> harness" where
  "after_hook st =
     (case server st of
        None \<Rightarrow> st
      | Some l \<Rightarrow>
          st\<lparr>server := Some (case l of Listening p \<Rightarrow> Closed | _ \<Rightarrow> l), closes := closes st + 1\<rparr>)"

text \<open>
  The runner's contract for \<^verbatim>\<open>describe\<close>: the \<^verbatim>\<open>before\<close> hook, then the tests in the order
  of their declaration, each one reported whether it passes or fails, then the
  \<^verbatim>\<open>after\<close> hook. A test that never completes holds the group.
\<close>

definition report :: "(error + unit) option \<Rightarrow> harness option \<Rightarrow> harness option" where
  "report result sto =
     (case sto of
        None \<Rightarrow> None
      | Some st \<Rightarrow>
          (case result of
             None \<Rightarrow> None
           | Some outcome \<Rightarrow> Some (st\<lparr>reported := reported st @ [outcome]\<rparr>)))"

definition app_health_tests ::
  "bool \<Rightarrow> (string \<Rightarrow> json option) \<Rightarrow> event list \<Rightarrow> event list \<Rightarrow> event list \<Rightarrow> harness option" where
  "app_health_tests port_free parse evs1 evs2 evs3 =
     map_option after_hook
       (report (api_test parse evs3)
         (report (root_test evs2)
           (report (health_test parse evs1)
             (before_hook port_free initial))))"

subsection \<open>Sample inputs\<close>

text \<open>A parser that knows two bodies, used to run the tests on concrete responses.\<close>

definition sample_parse :: "string \<Rightarrow> json option" where
  "sample_parse s =
     (if s = ''health-body''
      then Some (JsObj [(''status'', JsStr ''OK''),
                        (''timestamp'', JsStr ''2026-01-01T00:00:00.000Z''),
                        (''uptime'', JsNum (Finite (5 / 2)))])
      else if s = ''api-body''
      then Some (JsObj [(''message'', JsStr ''Aquisitions API is running!'')])
      else None)"

text \<open>
  A prototype chain for a heap whose address 2 holds the function \<^verbatim>\<open>toString\<close> of
  \<^verbatim>\<open>Object.prototype\<close>: every object inherits it, other values inherit nothing.
\<close>

definition sample_inherited :: inherited where
  "sample_inherited v = (case v of JRef a \<Rightarrow> [''toString'' \<mapsto> JRef 2] | _ \<Rightarrow> Map.empty)"

section \<open>Properties of the cookie helper\<close>

subsection \<open>Allocation and the merged options\<close>

lemma getOptions_eq:
  "getOptions e h =
     (length h,
      h @ [[''httpOnly'' \<mapsto> JBool True,
            ''secure'' \<mapsto> JBool (e ''NODE_ENV'' = Some ''production''),
            ''sameSite'' \<mapsto> JStr ''strict'',
            ''maxAge'' \<mapsto> JNum (Finite 900000)]])"
  by (simp add: getOptions_def alloc_def)

lemma object_at_append_new: "object_at (h @ [ps]) (length h) = ps"
  by (simp add: object_at_def)

lemma merged_options_eq:
  "merged_options e options h =
     (Suc (length h),
      h @ [object_at (snd (getOptions e h)) (length h),
           object_at (snd (getOptions e h)) (length h) ++ spread_source (snd (getOptions e h)) options])"
  by (simp add: merged_options_def getOptions_eq alloc_def spread2_def object_at_def)

lemma merged_object:
  "object_at (snd (merged_options e options h)) (fst (merged_options e options h)) =
     object_at (snd (getOptions e h)) (fst (getOptions e h)) ++ spread_source (snd (getOptions e h)) options"
  by (simp add: merged_options_eq getOptions_eq object_at_def nth_append)

lemma merged_old: "b < length h \<Longrightarrow> snd (merged_options e options h) ! b = h ! b"
  by (simp add: merged_options_eq nth_append)

lemma drop_result_state: "snd (drop_result out) = snd out"
  by (simp add: drop_result_def split: sum.splits)

lemma recorder_frame: "frame_respecting recorder"
  by (simp add: frame_respecting_def recorder_def writes_only_def)

subsection \<open>The defaults\<close>

text \<open>
  Claim C1. Every call of \<^verbatim>\<open>getOptions()\<close> returns an object whose properties are exactly
  \<^verbatim>\<open>httpOnly\<close> = true, \<^verbatim>\<open>sameSite\<close> = "strict", \<^verbatim>\<open>maxAge\<close> = 900000 and \<^verbatim>\<open>secure\<close>, which is
  true exactly when \<^verbatim>\<open>NODE_ENV\<close> is the string "production" at the call and false for any
  other value or when it is unset. The call cannot fail, and it leaves every object that
  existed before unchanged: the result is a new object.
\<close>

theorem getOptions_attributes:
  "case getOptions e h of (d, h') \<Rightarrow>
     object_at h' d ''httpOnly'' = Some (JBool True)
   \<and> object_at h' d ''sameSite'' = Some (JStr ''strict'')
   \<and> object_at h' d ''maxAge'' = Some (JNum (Finite 900000))
   \<and> object_at h' d ''secure'' = Some (JBool (e ''NODE_ENV'' = Some ''production''))
   \<and> dom (object_at h' d) = {''httpOnly'', ''secure'', ''sameSite'', ''maxAge''}
   \<and> d = length h \<and> take (length h) h' = h"
  by (auto simp: getOptions_eq object_at_append_new)

theorem getOptions_attributes_witness:
  "(case getOptions [''NODE_ENV'' \<mapsto> ''production''] [] of (d, h') \<Rightarrow>
      object_at h' d ''secure'' = Some (JBool True)
    \<and> object_at h' d ''maxAge'' = Some (JNum (Finite 900000)))
 \<and> (case getOptions [''NODE_ENV'' \<mapsto> ''test''] [] of (d, h') \<Rightarrow>
      object_at h' d ''secure'' = Some (JBool False))
 \<and> (case getOptions Map.empty [] of (d, h') \<Rightarrow>
      object_at h' d ''secure'' = Some (JBool False))"
  using getOptions_attributes [of "[''NODE_ENV'' \<mapsto> ''production'']" "[]"]
        getOptions_attributes [of "[''NODE_ENV'' \<mapsto> ''test'']" "[]"]
        getOptions_attributes [of Map.empty "[]"]
  by (simp split: prod.splits)

text \<open>
  Claim C8. Two calls of \<^verbatim>\<open>getOptions()\<close> between which \<^verbatim>\<open>NODE_ENV\<close> does not change
  return two objects that agree in \<^verbatim>\<open>httpOnly\<close>, \<^verbatim>\<open>secure\<close>, \<^verbatim>\<open>sameSite\<close> and \<^verbatim>\<open>maxAge\<close>
  (and have no other property); they are two distinct objects, so nothing is cached.
\<close>

theorem getOptions_twice:
  assumes "e1 ''NODE_ENV'' = e2 ''NODE_ENV''"
  shows "case getOptions e1 h of (d1, h1) \<Rightarrow>
         case getOptions e2 h1 of (d2, h2) \<Rightarrow>
           d1 \<noteq> d2
         \<and> object_at h2 d1 ''httpOnly'' = object_at h2 d2 ''httpOnly''
         \<and> object_at h2 d1 ''secure'' = object_at h2 d2 ''secure''
         \<and> object_at h2 d1 ''sameSite'' = object_at h2 d2 ''sameSite''
         \<and> object_at h2 d1 ''maxAge'' = object_at h2 d2 ''maxAge''
         \<and> object_at h2 d1 = object_at h2 d2"
  using assms by (simp add: getOptions_eq object_at_def nth_append)

theorem getOptions_twice_witness:
  "[''NODE_ENV'' \<mapsto> ''production'', ''PORT'' \<mapsto> ''3000''] ''NODE_ENV'' =
     [''NODE_ENV'' \<mapsto> ''production''] ''NODE_ENV''
 \<and> (case getOptions [''NODE_ENV'' \<mapsto> ''production'', ''PORT'' \<mapsto> ''3000''] [] of (d1, h1) \<Rightarrow>
      case getOptions [''NODE_ENV'' \<mapsto> ''production''] h1 of (d2, h2) \<Rightarrow>
        d1 \<noteq> d2 \<and> object_at h2 d1 = object_at h2 d2
      \<and> object_at h2 d2 ''secure'' = Some (JBool True))"
proof -
  have same: "[''NODE_ENV'' \<mapsto> ''production'', ''PORT'' \<mapsto> ''3000''] ''NODE_ENV'' =
     [''NODE_ENV'' \<mapsto> ''production''] ''NODE_ENV''"
    by simp
  show ?thesis
    using same
      getOptions_twice [of "[''NODE_ENV'' \<mapsto> ''production'', ''PORT'' \<mapsto> ''3000'']"
        "[''NODE_ENV'' \<mapsto> ''production'']" "[]"]
    by (simp add: getOptions_eq object_at_def split: prod.splits)
qed

subsection \<open>Merging the overrides\<close>

text \<open>
  Claim C3. When \<^verbatim>\<open>set\<close> or \<^verbatim>\<open>clear\<close> is given an override object, the object handed to
  the response target's \<^verbatim>\<open>cookie\<close> or \<^verbatim>\<open>clearCookie\<close> carries, for every key of the
  overrides (in particular one that the defaults also have, such as \<^verbatim>\<open>maxAge\<close>), the
  override's value, and for every other key the value of the defaults.
\<close>

theorem override_precedence:
  assumes "a < length h"
  shows "case merged_options e (JRef a) h of (m, h2) \<Rightarrow>
      cookies_set res e name val (JRef a) (h, r) = drop_result (cookie res name val (JRef m) (h2, r))
    \<and> cookies_clear res e name (JRef a) (h, r) = clearCookie res name (JRef m) (h2, r)
    \<and> (\<forall>k v. (h ! a) k = Some v \<longrightarrow> object_at h2 m k = Some v)
    \<and> (\<forall>k. (h ! a) k = None \<longrightarrow>
          object_at h2 m k = object_at (snd (getOptions e h)) (fst (getOptions e h)) k)"
proof -
  obtain m h2 where mh: "merged_options e (JRef a) h = (m, h2)"
    by (cases "merged_options e (JRef a) h")
  have obj: "object_at h2 m =
      object_at (snd (getOptions e h)) (fst (getOptions e h)) ++ spread_source (snd (getOptions e h)) (JRef a)"
    using merged_object [of e "JRef a" h] mh by simp
  have src: "object_at (snd (getOptions e h)) a = h ! a"
    using assms by (simp add: getOptions_eq object_at_def nth_append)
  have s: "cookies_set res e name val (JRef a) (h, r) = drop_result (cookie res name val (JRef m) (h2, r))"
    by (simp add: cookies_set_def default_options_def mh)
  have c: "cookies_clear res e name (JRef a) (h, r) = clearCookie res name (JRef m) (h2, r)"
    by (simp add: cookies_clear_def default_options_def mh)
  show ?thesis
    using s c by (simp add: mh obj src map_add_def)
qed

theorem override_precedence_witness:
  "0 < length [[''maxAge'' \<mapsto> JNum (Finite 604800000)]]
 \<and> (case merged_options Map.empty (JRef 0) [[''maxAge'' \<mapsto> JNum (Finite 604800000)]] of (m, h2) \<Rightarrow>
      object_at h2 m ''maxAge'' = Some (JNum (Finite 604800000))
    \<and> object_at h2 m ''httpOnly'' = Some (JBool True)
    \<and> cookies_set recorder Map.empty (JStr ''token'') (JStr ''abc'') (JRef 0)
          ([[''maxAge'' \<mapsto> JNum (Finite 604800000)]], []) =
        drop_result (cookie recorder (JStr ''token'') (JStr ''abc'') (JRef m) (h2, [])))"
proof -
  have valid: "0 < length [[''maxAge'' \<mapsto> JNum (Finite 604800000)]]"
    by simp
  show ?thesis
    using valid
      override_precedence [where a = 0 and h = "[[''maxAge'' \<mapsto> JNum (Finite 604800000)]]"
        and e = Map.empty and res = recorder and name = "JStr ''token''" and val = "JStr ''abc''"
        and r = "[]"]
    by (simp add: merged_options_eq getOptions_eq object_at_def)
qed

text \<open>
  Claim C9. Whatever is passed as overrides (an object, nothing, or any other value), the
  object that \<^verbatim>\<open>set\<close> hands to \<^verbatim>\<open>cookie\<close> and that \<^verbatim>\<open>clear\<close> hands to \<^verbatim>\<open>clearCookie\<close> has
  the four keys \<^verbatim>\<open>httpOnly\<close>, \<^verbatim>\<open>secure\<close>, \<^verbatim>\<open>sameSite\<close> and \<^verbatim>\<open>maxAge\<close>: an override replaces a
  value and never removes a key.
\<close>

theorem policy_keys_always_present:
  "case default_options options h of (options', h0) \<Rightarrow>
   case merged_options e options' h0 of (m, h2) \<Rightarrow>
      cookies_set res e name val options (h, r) = drop_result (cookie res name val (JRef m) (h2, r))
    \<and> cookies_clear res e name options (h, r) = clearCookie res name (JRef m) (h2, r)
    \<and> {''httpOnly'', ''secure'', ''sameSite'', ''maxAge''} \<subseteq> dom (object_at h2 m)"
proof -
  obtain o' h0 where d: "default_options options h = (o', h0)"
    by (cases "default_options options h")
  obtain m h2 where mh: "merged_options e o' h0 = (m, h2)"
    by (cases "merged_options e o' h0")
  have obj: "object_at h2 m =
      object_at (snd (getOptions e h0)) (fst (getOptions e h0)) ++ spread_source (snd (getOptions e h0)) o'"
    using merged_object [of e o' h0] mh by simp
  have keys: "{''httpOnly'', ''secure'', ''sameSite'', ''maxAge''} \<subseteq> dom (object_at h2 m)"
    unfolding obj by (auto simp: getOptions_eq object_at_def)
  show ?thesis
    using keys by (simp add: d mh cookies_set_def cookies_clear_def)
qed

theorem policy_keys_always_present_witness:
  "(case default_options (JRef 0) [[''maxAge'' \<mapsto> JUndefined, ''path'' \<mapsto> JStr ''/'']] of (options', h0) \<Rightarrow>
    case merged_options Map.empty options' h0 of (m, h2) \<Rightarrow>
      {''httpOnly'', ''secure'', ''sameSite'', ''maxAge''} \<subseteq> dom (object_at h2 m)
    \<and> object_at h2 m ''maxAge'' = Some JUndefined
    \<and> object_at h2 m ''path'' = Some (JStr ''/''))
 \<and> (case default_options JUndefined [] of (options', h0) \<Rightarrow>
    case merged_options Map.empty options' h0 of (m, h2) \<Rightarrow>
      {''httpOnly'', ''secure'', ''sameSite'', ''maxAge''} \<subseteq> dom (object_at h2 m))"
  using policy_keys_always_present [where options = "JRef 0"
          and h = "[[''maxAge'' \<mapsto> JUndefined, ''path'' \<mapsto> JStr ''/'']]" and e = Map.empty
          and res = recorder and name = "JStr ''token''" and val = "JStr ''abc''" and r = "[]"]
        policy_keys_always_present [where options = JUndefined and h = "[]" and e = Map.empty
          and res = recorder and name = "JStr ''token''" and val = "JStr ''abc''" and r = "[]"]
  by (simp add: default_options_def alloc_def merged_options_eq getOptions_eq object_at_def)

subsection \<open>The caller's overrides object\<close>

text \<open>
  Claim C10. \<^verbatim>\<open>set\<close> and \<^verbatim>\<open>clear\<close> do not write to the overrides object they are given.
  The merge allocates a new object, distinct from the overrides, and when the response
  target is called the overrides hold what they held before. The response target never
  receives the overrides; if its operation writes only to the object it is handed (and to
  objects it creates), the overrides still hold the same properties when \<^verbatim>\<open>set\<close> or
  \<^verbatim>\<open>clear\<close> returns, whether the operation returned or threw.
\<close>

theorem overrides_unchanged:
  assumes "a < length h"
  shows "(case merged_options e (JRef a) h of (m, h2) \<Rightarrow>
             length h \<le> m \<and> m \<noteq> a \<and> object_at h2 a = h ! a
           \<and> cookies_set res e name val (JRef a) (h, r) =
               drop_result (cookie res name val (JRef m) (h2, r))
           \<and> cookies_clear res e name (JRef a) (h, r) = clearCookie res name (JRef m) (h2, r))
       \<and> (frame_respecting res \<longrightarrow>
             object_at (fst (snd (cookies_set res e name val (JRef a) (h, r)))) a = h ! a
           \<and> object_at (fst (snd (cookies_clear res e name (JRef a) (h, r)))) a = h ! a)"
proof -
  obtain m h2 where mh: "merged_options e (JRef a) h = (m, h2)"
    by (cases "merged_options e (JRef a) h")
  have m: "m = Suc (length h)"
    using mh by (simp add: merged_options_eq)
  have len: "length h2 = length h + 2"
    using mh by (auto simp: merged_options_eq)
  have old: "h2 ! a = h ! a"
    using merged_old [OF assms, of e "JRef a"] mh by simp
  have frame: "writes_only m h2 h' \<Longrightarrow> object_at h' a = h ! a" for h'
    using assms len old m by (auto simp: writes_only_def object_at_def)
  have s: "cookies_set res e name val (JRef a) (h, r) = drop_result (cookie res name val (JRef m) (h2, r))"
    by (simp add: cookies_set_def default_options_def mh)
  have c: "cookies_clear res e name (JRef a) (h, r) = clearCookie res name (JRef m) (h2, r)"
    by (simp add: cookies_clear_def default_options_def mh)
  have pre: "object_at h2 a = h ! a"
    using assms len old by (simp add: object_at_def)
  have post: "object_at (fst (snd (cookies_set res e name val (JRef a) (h, r)))) a = h ! a
            \<and> object_at (fst (snd (cookies_clear res e name (JRef a) (h, r)))) a = h ! a"
    if "frame_respecting res"
    using that frame by (simp add: s c drop_result_state frame_respecting_def)
  show ?thesis
    using s c pre post assms m by (simp add: mh)
qed

theorem overrides_unchanged_witness:
  "0 < length [[''maxAge'' \<mapsto> JNum (Finite 604800000)]]
 \<and> frame_respecting recorder
 \<and> object_at (fst (snd (cookies_set recorder Map.empty (JStr ''token'') (JStr ''abc'') (JRef 0)
        ([[''maxAge'' \<mapsto> JNum (Finite 604800000)]], [])))) 0 =
      [[''maxAge'' \<mapsto> JNum (Finite 604800000)]] ! 0
 \<and> object_at (fst (snd (cookies_clear recorder Map.empty (JStr ''token'') (JRef 0)
        ([[''maxAge'' \<mapsto> JNum (Finite 604800000)]], [])))) 0 =
      [[''maxAge'' \<mapsto> JNum (Finite 604800000)]] ! 0"
proof -
  have valid: "0 < length [[''maxAge'' \<mapsto> JNum (Finite 604800000)]]"
    by simp
  show ?thesis
    using valid recorder_frame
      overrides_unchanged [where a = 0 and h = "[[''maxAge'' \<mapsto> JNum (Finite 604800000)]]"
        and e = Map.empty and res = recorder and name = "JStr ''token''" and val = "JStr ''abc''"
        and r = "[]"]
    by simp
qed

subsection \<open>Reading a cookie\<close>




text \<open>
  Claim C2, as stated: for a request that exposes no parsed cookie collection, \<^verbatim>\<open>get\<close>
  returns \<^verbatim>\<open>undefined\<close> and does not fail. It fails on a request that carries only its
  raw headers: \<^verbatim>\<open>req.cookie\<close> is \<^verbatim>\<open>undefined\<close> and reading a property of it throws.
\<close>

theorem get_without_collection_counterexample:
  "cookies_get sample_inherited
     [[''headers'' \<mapsto> JRef 1], [''cookie'' \<mapsto> JStr ''token=abc''], Map.empty] (JRef 0) ''token'' =
     Inl TypeError
 \<and> cookies_get sample_inherited
     [[''headers'' \<mapsto> JRef 1], [''cookie'' \<mapsto> JStr ''token=abc''], Map.empty] (JRef 0) ''token'' \<noteq>
     Inr JUndefined"
  by (simp add: cookies_get_def object_at_def from_chain_def sample_inherited_def)

text \<open>
  Claim C2, amended. For a request that exposes no parsed cookie collection, that is,
  whose \<^verbatim>\<open>cookie\<close> property is missing (on the object and on its prototype chain),
  \<^verbatim>\<open>undefined\<close> or \<^verbatim>\<open>null\<close>, and for a request that is itself \<^verbatim>\<open>undefined\<close> or \<^verbatim>\<open>null\<close>,
  \<^verbatim>\<open>get\<close> throws a TypeError for every name.
\<close>

theorem get_without_collection:
  assumes "req = JUndefined \<or> req = JNull \<or>
           (\<exists>q. req = JRef q \<and> q < length h \<and>
              (((h ! q) ''cookie'' = None \<and>
                  (inh req ''cookie'' = None \<or> inh req ''cookie'' = Some JUndefined
                    \<or> inh req ''cookie'' = Some JNull))
                \<or> (h ! q) ''cookie'' = Some JUndefined
                \<or> (h ! q) ''cookie'' = Some JNull))"
  shows "cookies_get inh h req name = Inl TypeError"
  using assms by (auto simp: cookies_get_def object_at_def from_chain_def)

theorem get_without_collection_witness:
  "(\<exists>q. JRef 0 = JRef q \<and> q < length [[''cookies'' \<mapsto> JRef 1], [''token'' \<mapsto> JStr ''abc''], Map.empty]
       \<and> ([[''cookies'' \<mapsto> JRef 1], [''token'' \<mapsto> JStr ''abc''], Map.empty] ! q) ''cookie'' = None
       \<and> sample_inherited (JRef 0) ''cookie'' = None)
 \<and> cookies_get sample_inherited
       [[''cookies'' \<mapsto> JRef 1], [''token'' \<mapsto> JStr ''abc''], Map.empty] (JRef 0) ''token'' =
       Inl TypeError"
  using get_without_collection [where req = "JRef 0" and name = "''token''" and inh = sample_inherited
          and h = "[[''cookies'' \<mapsto> JRef 1], [''token'' \<mapsto> JStr ''abc''], Map.empty]"]
  by (simp add: sample_inherited_def)

section \<open>Properties of the smoke-test harness\<close>

subsection \<open>Running the handlers\<close>











lemma test_paths_accepted:
  "path_accepted ''/health''" "path_accepted ''/''" "path_accepted ''/api''"
  by (simp_all add: path_accepted_def)

lemma run_test_resolved:
  "await (settled (run evs (makeRequest p))) = Some (Inr r) \<Longrightarrow>
   run_test p checks evs = Some (checks r)"
  by (simp add: run_test_def then_do_def)

subsection \<open>When a sequence of checks passes\<close>

lemma then_do_iff: "(then_do x f = Inr y) = (\<exists>v. x = Inr v \<and> f v = Inr y)"
  by (cases x) (simp_all add: then_do_def)

lemma assert_strictEqual_iff: "(assert_strictEqual a b = Inr u) = (a = b)"
  by (simp add: assert_strictEqual_def)

lemma assert_ok_iff: "(assert_ok b = Inr u) = b"
  by (simp add: assert_ok_def)

lemma JSON_parse_iff: "(JSON_parse parse s = Inr d) = (parse s = Some d)"
  by (simp add: JSON_parse_def split: option.splits)

lemma typeof_number: "(typeof u = ''number'') = (\<exists>n. u = Some (JsNum n))"
proof (cases u)
  case None
  then show ?thesis by simp
next
  case (Some j)
  then show ?thesis by (cases j) simp_all
qed

lemma health_checks_iff:
  "(health_checks parse r = Inr ()) =
     (statusCode r = 200 \<and>
      (\<exists>d. parse (data r) = Some d
         \<and> json_member d ''status'' = Inr (Some (JsStr ''OK''))
         \<and> (\<exists>t. json_member d ''timestamp'' = Inr t \<and> truthy t)
         \<and> (\<exists>n. json_member d ''uptime'' = Inr (Some (JsNum n)))))"
  unfolding health_checks_def then_do_iff assert_strictEqual_iff assert_ok_iff JSON_parse_iff
    typeof_number
  by auto

lemma root_checks_iff:
  "(root_checks r = Inr ()) =
     (statusCode r = 200 \<and> data r = ''Hello from acquisitions api'')"
  unfolding root_checks_def then_do_iff assert_strictEqual_iff
  by auto

lemma api_checks_iff:
  "(api_checks parse r = Inr ()) =
     (statusCode r = 200 \<and>
      (\<exists>d. parse (data r) = Some d
         \<and> json_member d ''message'' = Inr (Some (JsStr ''Aquisitions API is running!''))))"
  unfolding api_checks_def then_do_iff assert_strictEqual_iff JSON_parse_iff
  by auto

subsection \<open>The assertions\<close>

text \<open>
  Claim C4. For the response that the request of a test resolves with: the test of
  \<^verbatim>\<open>/health\<close> passes exactly when the status code is 200 and the body parses to a value whose
  \<^verbatim>\<open>status\<close> is the string "OK", whose \<^verbatim>\<open>timestamp\<close> is truthy and whose \<^verbatim>\<open>uptime\<close> is a
  number; the test of \<^verbatim>\<open>/\<close> passes exactly when the status code is 200 and the body is the
  string "Hello from acquisitions api"; the test of \<^verbatim>\<open>/api\<close> passes exactly when the status
  code is 200 and the body parses to a value whose \<^verbatim>\<open>message\<close> is the string
  "Aquisitions API is running!".
\<close>

theorem smoke_tests_pass_exactly_when:
  assumes "await (settled (run evs1 (makeRequest ''/health''))) = Some (Inr r1)"
      and "await (settled (run evs2 (makeRequest ''/''))) = Some (Inr r2)"
      and "await (settled (run evs3 (makeRequest ''/api''))) = Some (Inr r3)"
  shows "(health_test parse evs1 = Some (Inr ())) =
           (statusCode r1 = 200 \<and>
            (\<exists>d. parse (data r1) = Some d
               \<and> json_member d ''status'' = Inr (Some (JsStr ''OK''))
               \<and> (\<exists>t. json_member d ''timestamp'' = Inr t \<and> truthy t)
               \<and> (\<exists>n. json_member d ''uptime'' = Inr (Some (JsNum n)))))
       \<and> (root_test evs2 = Some (Inr ())) =
           (statusCode r2 = 200 \<and> data r2 = ''Hello from acquisitions api'')
       \<and> (api_test parse evs3 = Some (Inr ())) =
           (statusCode r3 = 200 \<and>
            (\<exists>d. parse (data r3) = Some d
               \<and> json_member d ''message'' = Inr (Some (JsStr ''Aquisitions API is running!''))))"
  by (simp only: health_test_def root_test_def api_test_def run_test_resolved [OF assms(1)]
        run_test_resolved [OF assms(2)] run_test_resolved [OF assms(3)]
        option.inject health_checks_iff root_checks_iff api_checks_iff simp_thms)

theorem smoke_tests_pass_exactly_when_witness:
  "await (settled (run [OnResponse 200 [], OnData ''health'', OnData ''-body'', OnEnd]
      (makeRequest ''/health''))) =
     Some (Inr \<lparr>statusCode = 200, headers = [], data = ''health-body''\<rparr>)
 \<and> await (settled (run [OnResponse 200 [], OnData ''Hello from '', OnData ''acquisitions api'', OnEnd]
      (makeRequest ''/''))) =
     Some (Inr \<lparr>statusCode = 200, headers = [], data = ''Hello from acquisitions api''\<rparr>)
 \<and> await (settled (run [OnResponse 404 [], OnData ''api-body'', OnEnd] (makeRequest ''/api''))) =
     Some (Inr \<lparr>statusCode = 404, headers = [], data = ''api-body''\<rparr>)
 \<and> health_test sample_parse [OnResponse 200 [], OnData ''health'', OnData ''-body'', OnEnd] =
     Some (Inr ())
 \<and> root_test [OnResponse 200 [], OnData ''Hello from '', OnData ''acquisitions api'', OnEnd] =
     Some (Inr ())
 \<and> api_test sample_parse [OnResponse 404 [], OnData ''api-body'', OnEnd] \<noteq> Some (Inr ())"
proof -
  have h1: "await (settled (run [OnResponse 200 [], OnData ''health'', OnData ''-body'', OnEnd]
      (makeRequest ''/health''))) =
     Some (Inr \<lparr>statusCode = 200, headers = [], data = ''health-body''\<rparr>)"
    by (simp add: run_def makeRequest_def test_paths_accepted resolve_def)
  have h2: "await (settled (run [OnResponse 200 [], OnData ''Hello from '', OnData ''acquisitions api'', OnEnd]
      (makeRequest ''/''))) =
     Some (Inr \<lparr>statusCode = 200, headers = [], data = ''Hello from acquisitions api''\<rparr>)"
    by (simp add: run_def makeRequest_def test_paths_accepted resolve_def)
  have h3: "await (settled (run [OnResponse 404 [], OnData ''api-body'', OnEnd] (makeRequest ''/api''))) =
     Some (Inr \<lparr>statusCode = 404, headers = [], data = ''api-body''\<rparr>)"
    by (simp add: run_def makeRequest_def test_paths_accepted resolve_def)
  show ?thesis
    using h1 h2 h3 smoke_tests_pass_exactly_when [OF h1 h2 h3, of sample_parse]
    by (simp add: sample_parse_def)
qed

subsection \<open>The request primitive\<close>




subsection \<open>Teardown\<close>

text \<open>
  Claim C6. In a run of the group in which setup binds the listener and each of the three
  tests completes, passing or failing, the listener is in state Listening on port 3001
  from the end of setup until all three results are reported, with no call of
  \<^verbatim>\<open>server.close\<close> so far; the \<^verbatim>\<open>after\<close> hook then closes it, and at the end of the run the
  listener is Closed and \<^verbatim>\<open>server.close\<close> has been called exactly once.
\<close>

theorem teardown_exactly_once:
  assumes "settled (run evs1 (makeRequest ''/health'')) \<noteq> Pending"
      and "settled (run evs2 (makeRequest ''/'')) \<noteq> Pending"
      and "settled (run evs3 (makeRequest ''/api'')) \<noteq> Pending"
  shows "\<exists>o1 o2 o3.
           health_test parse evs1 = Some o1 \<and> root_test evs2 = Some o2 \<and> api_test parse evs3 = Some o3
         \<and> before_hook True initial = Some \<lparr>server = Some (Listening 3001), closes = 0, reported = []\<rparr>
         \<and> report (api_test parse evs3) (report (root_test evs2) (report (health_test parse evs1)
              (before_hook True initial))) =
             Some \<lparr>server = Some (Listening 3001), closes = 0, reported = [o1, o2, o3]\<rparr>
         \<and> app_health_tests True parse evs1 evs2 evs3 =
             Some \<lparr>server = Some Closed, closes = 1, reported = [o1, o2, o3]\<rparr>"
proof -
  have completes: "settled (run evs (makeRequest p)) \<noteq> Pending \<Longrightarrow> \<exists>x. run_test p checks evs = Some x"
    for evs p checks
    by (cases "settled (run evs (makeRequest p))") (simp_all add: run_test_def)
  obtain o1 where o1: "health_test parse evs1 = Some o1"
    using completes [OF assms(1)] by (auto simp: health_test_def)
  obtain o2 where o2: "root_test evs2 = Some o2"
    using completes [OF assms(2)] by (auto simp: root_test_def)
  obtain o3 where o3: "api_test parse evs3 = Some o3"
    using completes [OF assms(3)] by (auto simp: api_test_def)
  have b: "before_hook True initial = Some \<lparr>server = Some (Listening 3001), closes = 0, reported = []\<rparr>"
    by (simp add: before_hook_def initial_def port_def)
  have t: "report (Some o3) (report (Some o2) (report (Some o1) (before_hook True initial))) =
             Some \<lparr>server = Some (Listening 3001), closes = 0, reported = [o1, o2, o3]\<rparr>"
    by (simp add: b report_def)
  have a: "app_health_tests True parse evs1 evs2 evs3 =
             Some \<lparr>server = Some Closed, closes = 1, reported = [o1, o2, o3]\<rparr>"
    by (simp add: app_health_tests_def o1 o2 o3 t after_hook_def)
  show ?thesis
    using o1 o2 o3 b t a by auto
qed

theorem teardown_exactly_once_witness:
  "settled (run [OnResponse 200 [], OnData ''health-body'', OnEnd] (makeRequest ''/health'')) \<noteq> Pending
 \<and> settled (run [OnResponse 200 [], OnData ''Goodbye'', OnEnd] (makeRequest ''/'')) \<noteq> Pending
 \<and> settled (run [OnError (TransportError ''ECONNRESET'')] (makeRequest ''/api'')) \<noteq> Pending
 \<and> app_health_tests True sample_parse
       [OnResponse 200 [], OnData ''health-body'', OnEnd]
       [OnResponse 200 [], OnData ''Goodbye'', OnEnd]
       [OnError (TransportError ''ECONNRESET'')] =
     Some \<lparr>server = Some Closed, closes = 1,
            reported = [Inr (), Inl AssertionError, Inl (TransportError ''ECONNRESET'')]\<rparr>"
proof -
  have c1: "settled (run [OnResponse 200 [], OnData ''health-body'', OnEnd] (makeRequest ''/health'')) \<noteq> Pending"
    by (simp add: run_def makeRequest_def test_paths_accepted resolve_def)
  have c2: "settled (run [OnResponse 200 [], OnData ''Goodbye'', OnEnd] (makeRequest ''/'')) \<noteq> Pending"
    by (simp add: run_def makeRequest_def test_paths_accepted resolve_def)
  have c3: "settled (run [OnError (TransportError ''ECONNRESET'')] (makeRequest ''/api'')) \<noteq> Pending"
    by (simp add: run_def makeRequest_def test_paths_accepted reject_def)
  have r1: "health_test sample_parse [OnResponse 200 [], OnData ''health-body'', OnEnd] = Some (Inr ())"
    by (simp add: health_test_def run_test_def run_def makeRequest_def test_paths_accepted resolve_def then_do_def
          health_checks_def assert_strictEqual_def assert_ok_def JSON_parse_def sample_parse_def)
  have r2: "root_test [OnResponse 200 [], OnData ''Goodbye'', OnEnd] = Some (Inl AssertionError)"
    by (simp add: root_test_def run_test_def run_def makeRequest_def test_paths_accepted resolve_def then_do_def
          root_checks_def assert_strictEqual_def)
  have r3: "api_test sample_parse [OnError (TransportError ''ECONNRESET'')] =
      Some (Inl (TransportError ''ECONNRESET''))"
    by (simp add: api_test_def run_test_def run_def makeRequest_def test_paths_accepted reject_def then_do_def)
  show ?thesis
    using c1 c2 c3 teardown_exactly_once [OF c1 c2 c3, of sample_parse]
    by (simp add: r1 r2 r3)
qed

end
